theory Spec2Isabelle
  imports Main
begin

section \<open>Values and objects\<close>

text \<open>
  The values that reach \<^verbatim>\<open>lib/server.js\<close>: what the transport decodes from the wire,
  what an exposed method hands to its result callback, and the members of the exposed
  object. Numbers are restricted to integers. A function value is known by the text its
  \<^verbatim>\<open>toString()\<close> returns; the introspection function that \<^verbatim>\<open>publicMethods\<close> creates
  carries the value it closes over (\<^verbatim>\<open>inspectedOutput\<close>).
\<close>

datatype jsval =
    Undefined
  | Null
  | Bool bool
  | Num int
  | Str string
  | Arr "jsval list"
  | Obj "(string \<times> jsval) list"
  | Fn func
and func =
    Declared string
  | Introspector jsval

text \<open>
  An object is the list of its own enumerable data properties in creation order, with
  distinct names; it inherits from \<^verbatim>\<open>Object.prototype\<close>, whose members are not
  enumerable.
\<close>

type_synonym object = "(string \<times> jsval) list"

text \<open>
  What is thrown: a \<^verbatim>\<open>TypeError\<close> of the runtime, an \<^verbatim>\<open>Error\<close> made with a message, and
  what an event emitter throws when an \<^verbatim>\<open>error\<close> event carrying a value finds no
  listener.
\<close>

datatype exn = TypeError | Error string | Unhandled jsval

text \<open>What \<^verbatim>\<open>if (v)\<close>, \<^verbatim>\<open>!v\<close> and \<^verbatim>\<open>v || w\<close> test.\<close>

fun truthy :: "jsval \<Rightarrow> bool" where
  "truthy Undefined = False"
| "truthy Null = False"
| "truthy (Bool b) = b"
| "truthy (Num n) = (n \<noteq> 0)"
| "truthy (Str s) = (s \<noteq> [])"
| "truthy (Arr xs) = True"
| "truthy (Obj ps) = True"
| "truthy (Fn f) = True"

definition or_else :: "jsval \<Rightarrow> jsval \<Rightarrow> jsval" where
  "or_else v w = (if truthy v then v else w)"

text \<open>\<^verbatim>\<open>typeof(v) == 'function'\<close>\<close>

fun is_function :: "jsval \<Rightarrow> bool" where
  "is_function (Fn f) = True"
| "is_function v = False"

text \<open>\<^verbatim>\<open>v != undefined\<close>: loose inequality, false for \<^verbatim>\<open>null\<close> as well.\<close>

fun not_undefined :: "jsval \<Rightarrow> bool" where
  "not_undefined Undefined = False"
| "not_undefined Null = False"
| "not_undefined v = True"

definition native :: "string \<Rightarrow> jsval" where
  "native n = Fn (Declared (''function '' @ n @ ''() { [native code] }''))"

text \<open>
  The members every ordinary object inherits. \<^verbatim>\<open>__proto__\<close> of an ordinary object
  evaluates to \<^verbatim>\<open>Object.prototype\<close> itself, an object with no enumerable property.
\<close>

definition Object_prototype :: object where
  "Object_prototype =
    [(''constructor'', native ''Object''),
     (''toString'', native ''toString''),
     (''toLocaleString'', native ''toLocaleString''),
     (''valueOf'', native ''valueOf''),
     (''hasOwnProperty'', native ''hasOwnProperty''),
     (''isPrototypeOf'', native ''isPrototypeOf''),
     (''propertyIsEnumerable'', native ''propertyIsEnumerable''),
     (''__defineGetter__'', native ''__defineGetter__''),
     (''__defineSetter__'', native ''__defineSetter__''),
     (''__lookupGetter__'', native ''__lookupGetter__''),
     (''__lookupSetter__'', native ''__lookupSetter__''),
     (''__proto__'', Obj [])]"

definition own_names :: "object \<Rightarrow> string list" where
  "own_names obj = map fst obj"

text \<open>\<^verbatim>\<open>obj[name]\<close>: own property first, then the prototype, else \<^verbatim>\<open>undefined\<close>.\<close>

definition get :: "object \<Rightarrow> string \<Rightarrow> jsval" where
  "get obj name =
    (case map_of obj name of
       Some v \<Rightarrow> v
     | None \<Rightarrow> (case map_of Object_prototype name of Some v \<Rightarrow> v | None \<Rightarrow> Undefined))"

text \<open>\<^verbatim>\<open>name in obj\<close>: true for own and for inherited properties.\<close>

definition has_in :: "string \<Rightarrow> object \<Rightarrow> bool" where
  "has_in name obj = (name \<in> set (own_names obj) \<or> name \<in> set (own_names Object_prototype))"

text \<open>
  \<^verbatim>\<open>obj[name] = v\<close>: an existing own property keeps its place, a new one is created
  last.
\<close>

primrec put :: "object \<Rightarrow> string \<Rightarrow> jsval \<Rightarrow> object" where
  "put [] name v = [(name, v)]"
| "put (p # ps) name v = (if fst p = name then (name, v) # ps else p # put ps name v)"

text \<open>
  \<^verbatim>\<open>for (var name in obj)\<close>: names that are array indices (canonical decimal numerals
  below \<open>2^32 - 1\<close>) come first in ascending order, the others follow in creation order.
\<close>

definition digit :: "char \<Rightarrow> bool" where
  "digit c = (c \<in> set ''0123456789'')"

definition decimal :: "string \<Rightarrow> nat" where
  "decimal s = foldl (\<lambda>n c. 10 * n + (of_char c - 48)) 0 s"

definition array_index :: "string \<Rightarrow> bool" where
  "array_index s =
    (s \<noteq> [] \<and> list_all digit s \<and> (s = ''0'' \<or> hd s \<noteq> CHR ''0'') \<and> decimal s < 2 ^ 32 - 1)"

definition for_in :: "object \<Rightarrow> string list" where
  "for_in obj =
    sort_key decimal (filter array_index (own_names obj))
      @ filter (\<lambda>k. \<not> array_index k) (own_names obj)"

section \<open>Parameter names of a function\<close>

text \<open>
  \<^verbatim>\<open>\s\<close> over characters below 256: tab, line feed, vertical tab, form feed, carriage
  return, space and no-break space.
\<close>

definition white :: "char \<Rightarrow> bool" where
  "white c = (c \<in> {CHR 0x09, CHR 0x0A, CHR 0x0B, CHR 0x0C, CHR 0x0D, CHR 0x20, CHR 0xA0})"

definition line_end :: "char \<Rightarrow> bool" where
  "line_end c = (c = CHR 0x0A \<or> c = CHR 0x0D)"

text \<open>
  \<^verbatim>\<open>m1 = /^[\s\(]*function[^(]*\(([^)]*)\)/\<close>: the text between the first \<^verbatim>\<open>(\<close> after
  the leading \<^verbatim>\<open>function\<close> keyword and the first \<^verbatim>\<open>)\<close> after it; \<open>None\<close> when the
  text does not match.
\<close>

definition m1 :: "string \<Rightarrow> string option" where
  "m1 s =
    (let s1 = dropWhile (\<lambda>c. white c \<or> c = CHR ''('') s in
     if take 8 s1 = ''function'' then
       (case dropWhile (\<lambda>c. c \<noteq> CHR ''('') (drop 8 s1) of
          [] \<Rightarrow> None
        | paren # s2 \<Rightarrow>
            (if dropWhile (\<lambda>c. c \<noteq> CHR '')'') s2 = [] then None
             else Some (takeWhile (\<lambda>c. c \<noteq> CHR '')'') s2)))
     else None)"

text \<open>
  \<^verbatim>\<open>m2 = /\/\/.*?[\r\n]|\/\*(?:.|[\r\n])*?\*\//g\<close>: a line comment up to and including
  its line end, or a block comment up to and including the first \<^verbatim>\<open>*/\<close>.
  \<open>m2_at s\<close> is the length of the match that starts at the head of \<open>s\<close>.
\<close>

fun star_slash :: "string \<Rightarrow> nat option" where
  "star_slash (a # b # cs) =
    (if a = CHR ''*'' \<and> b = CHR ''/'' then Some 0 else map_option Suc (star_slash (b # cs)))"
| "star_slash cs = None"

definition m2_at :: "string \<Rightarrow> nat option" where
  "m2_at s =
    (if take 2 s = ''//'' then
       (let body = takeWhile (\<lambda>c. \<not> line_end c) (drop 2 s) in
        if length body < length (drop 2 s) then Some (2 + length body + 1) else None)
     else if take 2 s = ''/*'' then
       map_option (\<lambda>k. 2 + k + 2) (star_slash (drop 2 s))
     else None)"

text \<open>
  \<^verbatim>\<open>.replace(m2, '')\<close>: scan from the left, delete each match, go on after it. The
  number is how many characters of a match being deleted are still to skip.
\<close>

primrec replace_m2 :: "string \<Rightarrow> nat \<Rightarrow> string" where
  "replace_m2 [] n = []"
| "replace_m2 (c # cs) n =
    (if 0 < n then replace_m2 cs (n - 1)
     else (case m2_at (c # cs) of
             Some k \<Rightarrow> replace_m2 cs (k - 1)
           | None \<Rightarrow> c # replace_m2 cs 0))"

text \<open>\<^verbatim>\<open>.replace(m3, '')\<close> with \<^verbatim>\<open>m3 = /\s+/g\<close>\<close>

definition replace_m3 :: "string \<Rightarrow> string" where
  "replace_m3 s = filter (\<lambda>c. \<not> white c) s"

text \<open>\<^verbatim>\<open>.split(',')\<close>: never empty; the empty text gives one empty piece.\<close>

fun split_comma :: "string \<Rightarrow> string list" where
  "split_comma [] = [[]]"
| "split_comma (c # cs) =
    (if c = CHR '','' then [] # split_comma cs
     else (case split_comma cs of w # ws \<Rightarrow> (c # w) # ws | [] \<Rightarrow> [[c]]))"

primrec toString :: "func \<Rightarrow> string" where
  "toString (Declared src) = src"
| "toString (Introspector out) =
    ''function(cb) {'' @ [CHR 0x0A]
      @ ''        cb(null, inspectedOutput, false);'' @ [CHR 0x0A]
      @ ''    }''"

text \<open>
  \<^verbatim>\<open>getArguments\<close>. When \<^verbatim>\<open>match\<close> returns \<^verbatim>\<open>null\<close>, indexing it throws a
  \<^verbatim>\<open>TypeError\<close>.
\<close>

definition getArguments :: "func \<Rightarrow> exn + string list" where
  "getArguments f =
    (case m1 (toString f) of
       None \<Rightarrow> Inl TypeError
     | Some params \<Rightarrow>
         (let names = split_comma (replace_m3 (replace_m2 params 0)) in
          Inr (if length names = 1 \<and> hd names = [] then [] else names)))"

section \<open>The method registry\<close>

definition underscore :: "string \<Rightarrow> bool" where
  "underscore name = (take 1 name = ''_'')"

text \<open>First loop of \<^verbatim>\<open>publicMethods\<close>: mark the members that are functions and whose
  name does not start with an underscore.\<close>

definition mark :: "object \<Rightarrow> object" where
  "mark context =
    foldl (\<lambda>methods name.
             if \<not> underscore name \<and> is_function (get context name)
             then put methods name (Bool True) else methods)
          [] (for_in context)"

text \<open>
  Body of the second loop: the entry pushed on \<^verbatim>\<open>inspected\<close> for one name.
  \<^verbatim>\<open>args.shift()\<close> removes the first element and leaves an empty array as it is.
\<close>

definition inspect :: "object \<Rightarrow> string \<Rightarrow> exn + jsval" where
  "inspect context name =
    (case get context name of
       Fn f \<Rightarrow>
         (case getArguments f of
            Inl e \<Rightarrow> Inl e
          | Inr args \<Rightarrow>
              (let argsWithSelf = ''self'' # tl args in
               Inr (Arr [Str name, Arr [Arr (map Str argsWithSelf), Null, Null, Null], Str ''''])))
     | v \<Rightarrow> Inl TypeError)"

fun inspect_all :: "object \<Rightarrow> string list \<Rightarrow> exn + jsval list" where
  "inspect_all context [] = Inr []"
| "inspect_all context (name # names) =
    (case inspect context name of
       Inl e \<Rightarrow> Inl e
     | Inr entry \<Rightarrow>
         (case inspect_all context names of
            Inl e \<Rightarrow> Inl e
          | Inr entries \<Rightarrow> Inr (entry # entries)))"

text \<open>
  The exposed object is the application's, and it may have been frozen, sealed or given
  read-only properties before the server sees it: besides its properties it has the flag
  that says whether properties may be added and the names of the own properties that are
  not writable.
\<close>

record exposed =
  members :: object
  extensible :: bool
  readonly :: "string list"

definition ordinary :: "object \<Rightarrow> exposed" where
  "ordinary ps = \<lparr>members = ps, extensible = True, readonly = []\<rparr>"

definition frozen :: "object \<Rightarrow> exposed" where
  "frozen ps = \<lparr>members = ps, extensible = False, readonly = own_names ps\<rparr>"

text \<open>
  \<^verbatim>\<open>obj[name] = v\<close> outside strict mode, for a name that \<^verbatim>\<open>Object.prototype\<close> does not
  have: an own writable property takes the value, a missing property is created when the
  object is extensible, and in every other case the assignment does nothing and does not
  throw.
\<close>

definition assign :: "exposed \<Rightarrow> string \<Rightarrow> jsval \<Rightarrow> exposed" where
  "assign obj name v =
    (if name \<in> set (own_names (members obj)) then
       (if name \<in> set (readonly obj) then obj
        else obj\<lparr>members := put (members obj) name v\<rparr>)
     else if extensible obj then obj\<lparr>members := put (members obj) name v\<rparr>
     else obj)"

text \<open>
  \<^verbatim>\<open>publicMethods\<close> returns the registry and assigns to the object it was given; the
  model returns the registry together with the object as it is afterwards. The two loops
  only read the properties of the object. An exception leaves before the assignment.
\<close>

definition publicMethods :: "exposed \<Rightarrow> exn + (object \<times> exposed)" where
  "publicMethods context =
    (let methods = mark (members context) in
     case inspect_all (members context) (for_in methods) of
       Inl e \<Rightarrow> Inl e
     | Inr inspected \<Rightarrow>
         (let inspectedOutput = Obj [(''methods'', Arr inspected)] in
          Inr (put methods ''_zerorpc_inspect'' (Bool True),
               assign context ''_zerorpc_inspect'' (Fn (Introspector inspectedOutput)))))"

section \<open>Channels and the result callback\<close>

text \<open>
  The transport's channel is known by what was sent on it and by whether \<^verbatim>\<open>close()\<close>
  was called. The transport and the heartbeat middleware are not part of
  \<^verbatim>\<open>lib/server.js\<close>; calls into them are recorded.
\<close>

datatype kind = OK | STREAM | STREAM_DONE | ERR

datatype status = OPEN | CLOSED

record channel =
  sent :: "(kind \<times> jsval) list"
  status :: status

text \<open>The variables the closures \<^verbatim>\<open>result\<close> and \<^verbatim>\<open>finish\<close> of one \<^verbatim>\<open>_recv\<close> share.\<close>

record call =
  channel :: channel
  isFirst :: bool
  finished :: bool

definition openChannel :: channel where
  "openChannel = \<lparr>sent = [], status = OPEN\<rparr>"

definition send :: "kind \<Rightarrow> jsval \<Rightarrow> call \<Rightarrow> call" where
  "send k payload s = s\<lparr>channel := (channel s)\<lparr>sent := sent (channel s) @ [(k, payload)]\<rparr>\<rparr>"

definition finish :: "call \<Rightarrow> call" where
  "finish s = s\<lparr>finished := True, channel := (channel s)\<lparr>status := CLOSED\<rparr>\<rparr>"

text \<open>The variables as \<^verbatim>\<open>_recv\<close> declares them, around the channel just opened.\<close>

definition fresh :: call where
  "fresh = \<lparr>channel = openChannel, isFirst = True, finished = False\<rparr>"

text \<open>
  \<^verbatim>\<open>new Error(message)\<close>: no \<^verbatim>\<open>type\<close>; the stack text is the runtime's and is a
  parameter.
\<close>

definition new_Error :: "string \<Rightarrow> string \<Rightarrow> jsval" where
  "new_Error trace msg = Obj [(''message'', Str msg), (''stack'', Str trace)]"

text \<open>
  \<^verbatim>\<open>errorObj.type\<close>, \<^verbatim>\<open>errorObj.message\<close>, \<^verbatim>\<open>errorObj.stack\<close>: a value that is not
  an object has none of the three.
\<close>

fun member_of :: "jsval \<Rightarrow> string \<Rightarrow> jsval" where
  "member_of (Obj ps) name = get ps name"
| "member_of v name = Undefined"

text \<open>
  \<^verbatim>\<open>result(error, item, more)\<close> returns the exception thrown, if any, and the variables
  afterwards.
\<close>

definition result :: "string \<Rightarrow> jsval \<Rightarrow> jsval \<Rightarrow> jsval \<Rightarrow> call \<Rightarrow> exn option \<times> call" where
  "result trace error item more' s =
    (if finished s then
       (Some (Error ''Result callback called after the channel was closed''), s)
     else if truthy error then
       (let errorObj = (case error of Str msg \<Rightarrow> new_Error trace msg | v \<Rightarrow> error);
            args = Arr [or_else (member_of errorObj ''type'') (Str ''Error''),
                        member_of errorObj ''message'',
                        member_of errorObj ''stack''];
            s1 = finish (send ERR args s)
        in (None, s1\<lparr>isFirst := False\<rparr>))
     else
       (let s1 = (if isFirst s \<and> \<not> truthy more' then send OK (Arr [item]) s
                  else if not_undefined item then send STREAM item s
                  else s);
            s2 = (if \<not> truthy more' then
                    finish (if \<not> isFirst s1 then send STREAM_DONE (Arr []) s1 else s1)
                  else s1)
        in (None, s2\<lparr>isFirst := False\<rparr>)))"

text \<open>
  A method's use of its callback: the invocations in order, each with the stack text the
  runtime would capture in it. An invocation that throws changes nothing, and the method
  may go on to the next.
\<close>

type_synonym invocation = "string \<times> jsval \<times> jsval \<times> jsval"

fun run :: "invocation list \<Rightarrow> call \<Rightarrow> call" where
  "run [] s = s"
| "run ((trace, error, item, more') # rest) s = run rest (snd (result trace error item more' s))"

text \<open>
  Frames that end a call, and the shape of a frame log in which such a frame can only be
  the last one and only on a finished call.
\<close>

definition terminal :: "kind \<times> jsval \<Rightarrow> bool" where
  "terminal f = (fst f = OK \<or> fst f = ERR)"

definition well_framed :: "call \<Rightarrow> bool" where
  "well_framed s =
    (list_all (\<lambda>f. \<not> terminal f) (butlast (sent (channel s)))
     \<and> (if finished s then status (channel s) = CLOSED
        else list_all (\<lambda>f. \<not> terminal f) (sent (channel s))))"

section \<open>The server\<close>

record event =
  name :: string
  args :: jsval

text \<open>An element of the argument array of \<^verbatim>\<open>apply\<close>: a request argument or the pushed callback.\<close>

datatype actual = Passed jsval | Result_callback

text \<open>
  A listener registered for the \<^verbatim>\<open>error\<close> event of the server is the application's;
  it is known by what a call of it does: return, or throw.
\<close>

type_synonym listener = "exn option"

record server =
  the_context :: exposed
  methods :: object
  heartbeat :: int
  listeners :: "listener list"

text \<open>
  \<^verbatim>\<open>self.emit("error", v)\<close>, by the exception it leaves with: with no listener
  registered the emitter throws; otherwise it calls the listeners in order, and the first
  one that throws ends the call.
\<close>

definition emit :: "server \<Rightarrow> jsval \<Rightarrow> exn option" where
  "emit self v =
    (if listeners self = [] then Some (Unhandled v)
     else (case filter (\<lambda>l. l \<noteq> None) (listeners self) of
             [] \<Rightarrow> None
           | l # ls \<Rightarrow> l))"


text \<open>
  What one \<^verbatim>\<open>_recv\<close> did: the channel it opened with the closure variables, the
  interval given to \<^verbatim>\<open>addHeartbeat\<close>, the values it passed to \<^verbatim>\<open>emit\<close> as
  \<^verbatim>\<open>error\<close> events, the function it applied to the context with its arguments, and
  the exception it left with.
\<close>

record dispatch =
  call :: call
  beat :: int
  emitted :: "jsval list"
  applied :: "(func \<times> actual list) option"
  thrown :: "exn option"

text \<open>\<^verbatim>\<open>v instanceof Array\<close>, and the elements of an array.\<close>

fun instanceof_Array :: "jsval \<Rightarrow> bool" where
  "instanceof_Array (Arr xs) = True"
| "instanceof_Array v = False"

fun elements :: "jsval \<Rightarrow> jsval list" where
  "elements (Arr xs) = xs"
| "elements v = []"

text \<open>
  \<^verbatim>\<open>_recv\<close> up to the point where it hands control to the function it applies; what
  that function then does, to the context or with the callback, is not part of it. When
  \<^verbatim>\<open>emit\<close> throws, \<^verbatim>\<open>return finish()\<close> is not reached. Applying a member that is
  not a function throws a \<^verbatim>\<open>TypeError\<close>.
\<close>

definition recv :: "server \<Rightarrow> event \<Rightarrow> int \<Rightarrow> exposed \<Rightarrow> dispatch" where
  "recv self event heartbeat' context =
    (let s = fresh in
     if \<not> instanceof_Array (args event) then
       (case emit self (Str ''Invalid event: Bad args'') of
          Some e \<Rightarrow>
            \<lparr>call = s, beat = heartbeat', emitted = [Str ''Invalid event: Bad args''],
             applied = None, thrown = Some e\<rparr>
        | None \<Rightarrow>
            \<lparr>call = finish s, beat = heartbeat', emitted = [Str ''Invalid event: Bad args''],
             applied = None, thrown = None\<rparr>)
     else
       (case get (members context) (name event) of
          Fn f \<Rightarrow>
            \<lparr>call = s, beat = heartbeat', emitted = [],
             applied = Some (f, map Passed (elements (args event)) @ [Result_callback]),
             thrown = None\<rparr>
        | v \<Rightarrow>
            \<lparr>call = s, beat = heartbeat', emitted = [],
             applied = None, thrown = Some TypeError\<rparr>))"

definition DEFAULT_HEARTBEAT :: int where
  "DEFAULT_HEARTBEAT = 5"

text \<open>
  The product of two numbers is the double nearest to the exact product, the even one of
  two that are equally near. Integers below \<open>2^53\<close> in magnitude are doubles; a larger
  one keeps its 53 leading bits. (A product beyond the largest double is infinite and has
  no value here.)
\<close>

fun bit_length :: "nat \<Rightarrow> nat" where
  "bit_length n = (if n = 0 then 0 else Suc (bit_length (n div 2)))"

definition to_double :: "int \<Rightarrow> int" where
  "to_double n =
    (if \<bar>n\<bar> < 2 ^ 53 then n
     else (let e = bit_length (nat \<bar>n\<bar>) - 53;
               q = \<bar>n\<bar> div 2 ^ e;
               r = \<bar>n\<bar> mod 2 ^ e;
               q' = (if 2 ^ e < 2 * r \<or> (2 * r = 2 ^ e \<and> odd q) then q + 1 else q)
           in sgn n * q' * 2 ^ e))"

text \<open>
  The constructor, with \<^verbatim>\<open>options.heartbeat\<close> (a whole number of seconds) given or
  not; it throws what \<^verbatim>\<open>publicMethods\<close> throws. The new emitter has no listener.
\<close>

definition Server :: "exposed \<Rightarrow> int option \<Rightarrow> exn + server" where
  "Server context0 options_heartbeat =
    (let heartbeat =
           to_double ((case options_heartbeat of
                         None \<Rightarrow> DEFAULT_HEARTBEAT
                       | Some h \<Rightarrow> if h \<noteq> 0 then h else DEFAULT_HEARTBEAT) * 1000)
     in case publicMethods context0 of
          Inl e \<Rightarrow> Inl e
        | Inr (methods1, context1) \<Rightarrow>
            Inr \<lparr>the_context = context1, methods = methods1, heartbeat = heartbeat,
                 listeners = []\<rparr>)"

text \<open>
  The listener for \<^verbatim>\<open>multiplexing-socket/receive\<close>: what \<^verbatim>\<open>_recv\<close> did, when it was
  called.
\<close>

definition receive :: "event \<Rightarrow> server \<Rightarrow> dispatch option" where
  "receive event srv =
    (if has_in (name event) (methods srv)
     then Some (recv srv event (heartbeat srv) (the_context srv))
     else None)"

section \<open>Properties of the result callback\<close>

lemma result_finished:
  "finished s \<Longrightarrow>
     result trace error item more' s =
       (Some (Error ''Result callback called after the channel was closed''), s)"
  by (simp add: result_def)

lemma run_finished: "finished s \<Longrightarrow> run cs s = s"
  by (induction cs arbitrary: s) (auto simp: result_finished)

lemma run_append: "run (cs @ ds) s = run ds (run cs s)"
  by (induction cs arbitrary: s) auto

lemma well_framed_fresh: "well_framed fresh"
  by (simp add: well_framed_def fresh_def openChannel_def)

lemma well_framed_result:
  assumes "well_framed s"
  shows "well_framed (snd (result trace error item more' s))"
proof (cases "finished s")
  case True
  with assms show ?thesis by (simp add: result_finished)
next
  case False
  with assms have quiet: "list_all (\<lambda>f. \<not> terminal f) (sent (channel s))"
    by (simp add: well_framed_def)
  from assms have front: "list_all (\<lambda>f. \<not> terminal f) (butlast (sent (channel s)))"
    by (simp add: well_framed_def)
  from False quiet front show ?thesis
    by (auto simp: result_def well_framed_def send_def finish_def terminal_def Let_def
        butlast_append)
qed

lemma well_framed_run: "well_framed s \<Longrightarrow> well_framed (run cs s)"
  by (induction cs arbitrary: s) (auto simp: well_framed_result)

lemma well_framed_terminal_last:
  assumes "well_framed s" and "i < length (sent (channel s))"
    and "terminal (sent (channel s) ! i)"
  shows "Suc i = length (sent (channel s)) \<and> finished s \<and> status (channel s) = CLOSED"
proof -
  let ?fs = "sent (channel s)"
  from assms(1) have quiet: "list_all (\<lambda>f. \<not> terminal f) (butlast ?fs)"
    by (simp add: well_framed_def)
  have last: "Suc i = length ?fs"
  proof (rule ccontr)
    assume "Suc i \<noteq> length ?fs"
    with assms(2) have "i < length (butlast ?fs)" by simp
    with quiet have "\<not> terminal (butlast ?fs ! i)" by (simp add: list_all_length)
    moreover from \<open>i < length (butlast ?fs)\<close> have "butlast ?fs ! i = ?fs ! i"
      by (simp add: nth_butlast)
    ultimately show False using assms(3) by simp
  qed
  have fin: "finished s"
  proof (rule ccontr)
    assume "\<not> finished s"
    with assms(1) have "list_all (\<lambda>f. \<not> terminal f) ?fs" by (simp add: well_framed_def)
    with assms(2) have "\<not> terminal (?fs ! i)" by (simp add: list_all_length)
    with assms(3) show False by simp
  qed
  with assms(1) have "status (channel s) = CLOSED" by (simp add: well_framed_def)
  with last fin show ?thesis by simp
qed

lemma well_framed_count:
  assumes "well_framed s"
  shows "length (filter terminal (sent (channel s))) \<le> 1"
proof (cases "sent (channel s) = []")
  case True
  then show ?thesis by simp
next
  case False
  let ?fs = "sent (channel s)"
  from assms have "list_all (\<lambda>f. \<not> terminal f) (butlast ?fs)"
    by (simp add: well_framed_def)
  then have "filter terminal (butlast ?fs) = []"
    by (simp add: list_all_iff filter_empty_conv)
  moreover from False have "?fs = butlast ?fs @ [last ?fs]" by simp
  then have "filter terminal ?fs = filter terminal (butlast ?fs) @ filter terminal [last ?fs]"
    by (metis filter_append)
  ultimately show ?thesis by simp
qed

text \<open>
  Claim C2. Whatever invocations of the result callback a method makes on the channel of
  its call, at most one frame of kind OK or ERR is sent; and when one is sent it is the
  last frame of the channel: the channel is then closed, and no later invocation adds a
  frame.
\<close>

theorem C2_one_terminal_frame_and_it_is_last:
  "let s = run cs fresh; frames = sent (channel s) in
     length (filter terminal frames) \<le> 1
     \<and> (\<forall>i<length frames. terminal (frames ! i) \<longrightarrow>
           Suc i = length frames
           \<and> status (channel s) = CLOSED
           \<and> (\<forall>later. sent (channel (run later s)) = frames))"
proof -
  have wf: "well_framed (run cs fresh)"
    by (rule well_framed_run [OF well_framed_fresh])
  have "Suc i = length (sent (channel (run cs fresh)))
        \<and> status (channel (run cs fresh)) = CLOSED
        \<and> (\<forall>later. sent (channel (run later (run cs fresh))) = sent (channel (run cs fresh)))"
    if "i < length (sent (channel (run cs fresh)))"
      and "terminal (sent (channel (run cs fresh)) ! i)" for i
    using well_framed_terminal_last [OF wf that] by (simp add: run_finished)
  with well_framed_count [OF wf] show ?thesis by (simp add: Let_def)
qed

theorem C2_one_terminal_frame_and_it_is_last_witness:
  "(0 < length (sent (channel (run [(''at f'', Null, Num 3, Bool False)] fresh)))
    \<and> terminal (sent (channel (run [(''at f'', Null, Num 3, Bool False)] fresh)) ! 0))
   \<and> Suc 0 = length (sent (channel (run [(''at f'', Null, Num 3, Bool False)] fresh)))
   \<and> status (channel (run [(''at f'', Null, Num 3, Bool False)] fresh)) = CLOSED"
  using C2_one_terminal_frame_and_it_is_last [of "[(''at f'', Null, Num 3, Bool False)]"]
  by (simp add: Let_def result_def fresh_def openChannel_def send_def finish_def terminal_def)

text \<open>
  Claim C3. When the first invocation of the result callback on a channel has no error
  and \<^verbatim>\<open>more\<close> is false (or any other value that \<^verbatim>\<open>!more\<close> accepts), exactly one
  frame is sent by it, \<^verbatim>\<open>OK\<close> with the payload \<^verbatim>\<open>[item]\<close>, and the channel is closed;
  no \<^verbatim>\<open>STREAM_DONE\<close> frame is sent, neither by this invocation nor by a later one.
\<close>

theorem C3_first_reply_without_more_is_one_OK:
  assumes "isFirst s" and "\<not> finished s" and "\<not> truthy error" and "\<not> truthy more'"
  shows "result trace error item more' s =
           (None, s\<lparr>channel := (channel s)\<lparr>sent := sent (channel s) @ [(OK, Arr [item])],
                                           status := CLOSED\<rparr>,
                    finished := True, isFirst := False\<rparr>)
         \<and> (\<forall>later. sent (channel (run later (snd (result trace error item more' s))))
                      = sent (channel s) @ [(OK, Arr [item])])"
proof -
  have step: "result trace error item more' s =
           (None, s\<lparr>channel := (channel s)\<lparr>sent := sent (channel s) @ [(OK, Arr [item])],
                                           status := CLOSED\<rparr>,
                    finished := True, isFirst := False\<rparr>)"
    using assms by (simp add: result_def send_def finish_def)
  then show ?thesis by (simp add: run_finished)
qed

theorem C3_first_reply_without_more_is_one_OK_witness:
  "(isFirst fresh \<and> \<not> finished fresh \<and> \<not> truthy Null \<and> \<not> truthy (Bool False))
   \<and> result ''at add'' Null (Num 3) (Bool False) fresh =
       (None, \<lparr>channel = \<lparr>sent = [(OK, Arr [Num 3])], status = CLOSED\<rparr>,
               isFirst = False, finished = True\<rparr>)"
  using C3_first_reply_without_more_is_one_OK
          [of fresh Null "Bool False" "''at add''" "Num 3"]
  by (simp add: fresh_def openChannel_def)

text \<open>
  Claim C4. The invocations \<^verbatim>\<open>callback(null,'a',true)\<close>, \<^verbatim>\<open>callback(null,'b',true)\<close>,
  \<^verbatim>\<open>callback(null,undefined,false)\<close> on a new channel send exactly \<^verbatim>\<open>STREAM 'a'\<close>,
  \<^verbatim>\<open>STREAM 'b'\<close>, \<^verbatim>\<open>STREAM_DONE []\<close> in this order and close the channel. In general
  an invocation that is not the first, has no error, has \<^verbatim>\<open>more\<close> false and an
  undefined item sends exactly one frame, \<^verbatim>\<open>STREAM_DONE\<close> with the empty payload, and
  closes the channel.
\<close>

theorem C4_stream_then_done:
  assumes "\<not> isFirst s" and "\<not> finished s" and "\<not> truthy error" and "\<not> truthy more'"
  shows "run [(t1, Null, Str ''a'', Bool True), (t2, Null, Str ''b'', Bool True),
              (t3, Null, Undefined, Bool False)] fresh =
           \<lparr>channel = \<lparr>sent = [(STREAM, Str ''a''), (STREAM, Str ''b''), (STREAM_DONE, Arr [])],
                       status = CLOSED\<rparr>,
            isFirst = False, finished = True\<rparr>
         \<and> result trace error Undefined more' s =
           (None, s\<lparr>channel := (channel s)\<lparr>sent := sent (channel s) @ [(STREAM_DONE, Arr [])],
                                           status := CLOSED\<rparr>,
                    finished := True, isFirst := False\<rparr>)"
proof
  show "run [(t1, Null, Str ''a'', Bool True), (t2, Null, Str ''b'', Bool True),
             (t3, Null, Undefined, Bool False)] fresh =
           \<lparr>channel = \<lparr>sent = [(STREAM, Str ''a''), (STREAM, Str ''b''), (STREAM_DONE, Arr [])],
                       status = CLOSED\<rparr>,
            isFirst = False, finished = True\<rparr>"
    by (simp add: result_def fresh_def openChannel_def send_def finish_def)
  show "result trace error Undefined more' s =
           (None, s\<lparr>channel := (channel s)\<lparr>sent := sent (channel s) @ [(STREAM_DONE, Arr [])],
                                           status := CLOSED\<rparr>,
                    finished := True, isFirst := False\<rparr>)"
    using assms by (simp add: result_def send_def finish_def)
qed

theorem C4_stream_then_done_witness:
  "(\<not> isFirst \<lparr>channel = \<lparr>sent = [(STREAM, Str ''a'')], status = OPEN\<rparr>,
                 isFirst = False, finished = False\<rparr>
    \<and> \<not> finished \<lparr>channel = \<lparr>sent = [(STREAM, Str ''a'')], status = OPEN\<rparr>,
                    isFirst = False, finished = False\<rparr>
    \<and> \<not> truthy Null \<and> \<not> truthy (Bool False))
   \<and> result ''t'' Null Undefined (Bool False)
        \<lparr>channel = \<lparr>sent = [(STREAM, Str ''a'')], status = OPEN\<rparr>,
         isFirst = False, finished = False\<rparr> =
       (None, \<lparr>channel = \<lparr>sent = [(STREAM, Str ''a''), (STREAM_DONE, Arr [])], status = CLOSED\<rparr>,
               isFirst = False, finished = True\<rparr>)"
  using C4_stream_then_done
          [of "\<lparr>channel = \<lparr>sent = [(STREAM, Str ''a'')], status = OPEN\<rparr>,
               isFirst = False, finished = False\<rparr>" Null "Bool False"
              "''t''" "''t''" "''t''" "''t''"]
  by simp

text \<open>
  Claim C5. An invocation of the result callback on a call that is not finished, with
  an error argument that is set (one that \<^verbatim>\<open>if (error)\<close> accepts), sends exactly one
  frame, \<^verbatim>\<open>ERR\<close> with the payload \<^verbatim>\<open>[type, message, stack]\<close>, and closes the channel,
  whatever \<^verbatim>\<open>more\<close> is. The first component is \<^verbatim>\<open>"Error"\<close> when the error has no
  \<^verbatim>\<open>type\<close> (the code writes \<^verbatim>\<open>errorObj.type || "Error"\<close>); an error that is a string
  gives \<^verbatim>\<open>["Error", thatString, stack]\<close> with the stack of the \<^verbatim>\<open>Error\<close> made from it.
\<close>

theorem C5_error_sends_one_ERR_and_closes:
  assumes "\<not> finished s" and "truthy error"
  shows "result trace error item more' s =
           (None,
            s\<lparr>channel :=
                (channel s)\<lparr>sent := sent (channel s) @
                   [(ERR, Arr (case error of
                                 Str text \<Rightarrow> [Str ''Error'', Str text, Str trace]
                               | v \<Rightarrow> [if truthy (member_of v ''type'')
                                       then member_of v ''type'' else Str ''Error'',
                                       member_of v ''message'',
                                       member_of v ''stack'']))],
                  status := CLOSED\<rparr>,
              finished := True, isFirst := False\<rparr>)"
  using assms
  by (cases error)
     (simp_all add: result_def send_def finish_def new_Error_def or_else_def get_def
        Object_prototype_def)

theorem C5_error_sends_one_ERR_and_closes_witness:
  "(\<not> finished fresh \<and> truthy (Str ''boom''))
   \<and> result ''Error: boom at f'' (Str ''boom'') Undefined Undefined fresh =
       (None, \<lparr>channel = \<lparr>sent = [(ERR, Arr [Str ''Error'', Str ''boom'', Str ''Error: boom at f''])],
                           status = CLOSED\<rparr>,
               isFirst = False, finished = True\<rparr>)"
  using C5_error_sends_one_ERR_and_closes
          [of fresh "Str ''boom''" "''Error: boom at f''" Undefined Undefined]
  by (simp add: fresh_def openChannel_def)

text \<open>
  Claim C6. An invocation of the result callback on a call whose \<^verbatim>\<open>finished\<close> flag is
  true throws, whatever its arguments; it sends no frame and changes neither the channel
  nor the flags.
\<close>

theorem C6_callback_after_finish_throws:
  assumes "finished s"
  shows "result trace error item more' s =
           (Some (Error ''Result callback called after the channel was closed''), s)"
  using assms by (simp add: result_def)

theorem C6_callback_after_finish_throws_witness:
  "finished (snd (result ''t'' Null (Num 3) (Bool False) fresh))
   \<and> result ''t'' Null (Num 4) (Bool False) (snd (result ''t'' Null (Num 3) (Bool False) fresh)) =
       (Some (Error ''Result callback called after the channel was closed''),
        \<lparr>channel = \<lparr>sent = [(OK, Arr [Num 3])], status = CLOSED\<rparr>,
         isFirst = False, finished = True\<rparr>)"
proof -
  have now: "snd (result ''t'' Null (Num 3) (Bool False) fresh) =
      \<lparr>channel = \<lparr>sent = [(OK, Arr [Num 3])], status = CLOSED\<rparr>,
       isFirst = False, finished = True\<rparr>"
    by (simp add: result_def fresh_def openChannel_def send_def finish_def)
  show ?thesis
    using C6_callback_after_finish_throws
            [of "snd (result ''t'' Null (Num 3) (Bool False) fresh)" "''t''" Null "Num 4"
                "Bool False"]
    by (simp add: now)
qed

text \<open>
  Claim C10. An invocation of the result callback on a call that is not finished, with
  no error, with \<^verbatim>\<open>more\<close> true and with an item that is \<^verbatim>\<open>null\<close> or \<^verbatim>\<open>undefined\<close>,
  sends no frame and leaves the channel as it is (open); it only clears \<^verbatim>\<open>isFirst\<close>.
\<close>

theorem C10_nullish_item_with_more_sends_nothing:
  assumes "\<not> finished s" and "\<not> truthy error" and "truthy more'"
    and "item = Null \<or> item = Undefined"
  shows "result trace error item more' s = (None, s\<lparr>isFirst := False\<rparr>)"
  using assms by (auto simp: result_def)

theorem C10_nullish_item_with_more_sends_nothing_witness:
  "(\<not> finished fresh \<and> \<not> truthy Null \<and> truthy (Bool True) \<and> (Null = Null \<or> Null = Undefined))
   \<and> result ''t'' Null Null (Bool True) fresh =
       (None, \<lparr>channel = \<lparr>sent = [], status = OPEN\<rparr>, isFirst = False, finished = False\<rparr>)"
  using C10_nullish_item_with_more_sends_nothing [of fresh Null "Bool True" Null "''t''"]
  by (simp add: fresh_def openChannel_def)

section \<open>Properties of dispatch\<close>



lemmas construction =
  Server_def publicMethods_def mark_def for_in_def own_names_def array_index_def digit_def
  underscore_def get_def Object_prototype_def native_def inspect_def getArguments_def m1_def
  white_def m2_at_def replace_m3_def DEFAULT_HEARTBEAT_def Let_def ordinary_def frozen_def
  assign_def to_double_def




lemma receive_dispatches_iff:
  "receive ev srv \<noteq> None \<longleftrightarrow>
     name ev \<in> set (own_names (methods srv)) \<or> name ev \<in> set (own_names Object_prototype)"
  by (simp add: receive_def has_in_def)

lemma receive_drops_unknown:
  assumes "name ev \<notin> set (own_names (methods srv))"
    and "name ev \<notin> set (own_names Object_prototype)"
  shows "receive ev srv = None"
  using assms by (simp add: receive_def has_in_def)

text \<open>
  Claim C8. The listener tests \<^verbatim>\<open>event.name in methods\<close>, and \<^verbatim>\<open>in\<close> is true for the
  names \<^verbatim>\<open>methods\<close> inherits as well. On the server built over the empty context the
  registry holds \<^verbatim>\<open>_zerorpc_inspect\<close> alone; yet a request named \<^verbatim>\<open>toString\<close>, or
  \<^verbatim>\<open>__lookupGetter__\<close>, is not dropped: a channel is opened, the heartbeat attached, and
  the inherited function applied to the context with the callback as last argument.
\<close>

theorem C8_inherited_names_are_dispatched:
  "Server (ordinary []) None =
     Inr \<lparr>the_context =
            ordinary [(''_zerorpc_inspect'', Fn (Introspector (Obj [(''methods'', Arr [])])))],
          methods = [(''_zerorpc_inspect'', Bool True)], heartbeat = 5000, listeners = []\<rparr>
   \<and> own_names [(''_zerorpc_inspect'', Bool True)] = [''_zerorpc_inspect'']
   \<and> receive \<lparr>name = ''toString'', args = Arr []\<rparr>
        \<lparr>the_context =
           ordinary [(''_zerorpc_inspect'', Fn (Introspector (Obj [(''methods'', Arr [])])))],
         methods = [(''_zerorpc_inspect'', Bool True)], heartbeat = 5000, listeners = []\<rparr> =
       Some \<lparr>call = \<lparr>channel = \<lparr>sent = [], status = OPEN\<rparr>, isFirst = True, finished = False\<rparr>,
             beat = 5000, emitted = [],
             applied = Some (Declared ''function toString() { [native code] }'', [Result_callback]),
             thrown = None\<rparr>
   \<and> receive \<lparr>name = ''__lookupGetter__'', args = Arr [Str ''x'']\<rparr>
        \<lparr>the_context =
           ordinary [(''_zerorpc_inspect'', Fn (Introspector (Obj [(''methods'', Arr [])])))],
         methods = [(''_zerorpc_inspect'', Bool True)], heartbeat = 5000, listeners = []\<rparr> =
       Some \<lparr>call = \<lparr>channel = \<lparr>sent = [], status = OPEN\<rparr>, isFirst = True, finished = False\<rparr>,
             beat = 5000, emitted = [],
             applied = Some (Declared ''function __lookupGetter__() { [native code] }'',
                             [Passed (Str ''x''), Result_callback]),
             thrown = None\<rparr>"
  by (simp add: construction receive_def recv_def has_in_def fresh_def openChannel_def)

text \<open>
  The same test lets through a request named \<^verbatim>\<open>__defineGetter__\<close>: the inherited
  function is applied to the context with a property name and the callback, which is how
  a getter is defined on an object.
\<close>

lemma defineGetter_is_applied_to_the_context:
  "receive \<lparr>name = ''__defineGetter__'', args = Arr [Str ''foo'']\<rparr>
        \<lparr>the_context =
           ordinary [(''_zerorpc_inspect'', Fn (Introspector (Obj [(''methods'', Arr [])])))],
         methods = [(''_zerorpc_inspect'', Bool True)], heartbeat = 5000, listeners = []\<rparr> =
       Some \<lparr>call = \<lparr>channel = \<lparr>sent = [], status = OPEN\<rparr>, isFirst = True, finished = False\<rparr>,
             beat = 5000, emitted = [],
             applied = Some (Declared ''function __defineGetter__() { [native code] }'',
                             [Passed (Str ''foo''), Result_callback]),
             thrown = None\<rparr>"
  by (simp add: construction receive_def recv_def has_in_def fresh_def openChannel_def)

section \<open>Properties of the registry\<close>

lemma filter_put: "filter (\<lambda>p. fst p \<noteq> k) (put obj k v) = filter (\<lambda>p. fst p \<noteq> k) obj"
  by (induction obj) auto

lemma map_of_put: "map_of (put obj k v) = (map_of obj)(k \<mapsto> v)"
  by (induction obj) auto

lemma get_put_other: "n \<noteq> k \<Longrightarrow> get (put obj k v) n = get obj n"
  by (simp add: get_def map_of_put)

lemma get_put_same: "get (put obj k v) k = v"
  by (simp add: get_def map_of_put)

lemma put_append: "k \<notin> set (own_names obj) \<Longrightarrow> put obj k v = obj @ [(k, v)]"
  by (induction obj) (auto simp: own_names_def)

lemma own_names_put: "k \<in> set (own_names obj) \<Longrightarrow> own_names (put obj k v) = own_names obj"
  by (induction obj) (auto simp: own_names_def)

lemma publicMethods_context:
  assumes "publicMethods context0 = Inr (registry, context1)"
  shows "\<exists>manifest. context1 = assign context0 ''_zerorpc_inspect'' (Fn (Introspector manifest))"
  using assms by (auto simp: publicMethods_def Let_def split: sum.splits)

lemma Server_context:
  assumes "Server context0 opts = Inr srv"
  shows "\<exists>manifest.
           the_context srv = assign context0 ''_zerorpc_inspect'' (Fn (Introspector manifest))"
proof -
  from assms obtain registry context1
    where pm: "publicMethods context0 = Inr (registry, context1)"
      and ctx: "the_context srv = context1"
    by (auto simp: Server_def Let_def split: sum.splits)
  from publicMethods_context [OF pm] ctx show ?thesis by simp
qed

text \<open>
  Claim C9, as the code has it. Construction of the server does change the context it is
  given: \<^verbatim>\<open>publicMethods\<close> assigns the introspection function to the property
  \<^verbatim>\<open>_zerorpc_inspect\<close>, which the context did not have.
\<close>

theorem C9_construction_adds_zerorpc_inspect:
  "Server (ordinary [(''add'', Fn (Declared ''function (a, b, cb) { cb(null, a + b); }''))]) None =
     Inr \<lparr>the_context =
            ordinary
              [(''add'', Fn (Declared ''function (a, b, cb) { cb(null, a + b); }'')),
               (''_zerorpc_inspect'',
                Fn (Introspector (Obj [(''methods'',
                  Arr [Arr [Str ''add'',
                            Arr [Arr [Str ''self'', Str ''b'', Str ''cb''], Null, Null, Null],
                            Str []]])])))],
          methods = [(''add'', Bool True), (''_zerorpc_inspect'', Bool True)],
          heartbeat = 5000, listeners = []\<rparr>
   \<and> get [(''add'', Fn (Declared ''function (a, b, cb) { cb(null, a + b); }''))]
         ''_zerorpc_inspect'' = Undefined"
  by (simp add: construction)

text \<open>
  Claim C9, amended. Construction of the server changes the context at no property other
  than \<^verbatim>\<open>_zerorpc_inspect\<close>, to which it assigns the introspection function. An
  extensible context without that property gets it as a new, last property. A context
  that has the property, writable, gets its value replaced, with no property added. A
  context that cannot take the assignment (it has no such property and is not extensible,
  or it has the property read-only, as a frozen context has) is left exactly as it was.
  In every case the other properties keep their values and their order, none is removed,
  and the context stays as extensible and its properties as writable as they were.
\<close>

theorem C9_construction_changes_only_zerorpc_inspect:
  assumes "Server context0 opts = Inr srv"
  shows "filter (\<lambda>p. fst p \<noteq> ''_zerorpc_inspect'') (members (the_context srv))
           = filter (\<lambda>p. fst p \<noteq> ''_zerorpc_inspect'') (members context0)
         \<and> (\<forall>n. n \<noteq> ''_zerorpc_inspect'' \<longrightarrow>
               get (members (the_context srv)) n = get (members context0) n)
         \<and> extensible (the_context srv) = extensible context0
         \<and> readonly (the_context srv) = readonly context0
         \<and> (''_zerorpc_inspect'' \<notin> set (own_names (members context0)) \<and> extensible context0 \<longrightarrow>
              (\<exists>manifest. members (the_context srv) =
                  members context0 @ [(''_zerorpc_inspect'', Fn (Introspector manifest))]))
         \<and> (''_zerorpc_inspect'' \<in> set (own_names (members context0))
              \<and> ''_zerorpc_inspect'' \<notin> set (readonly context0) \<longrightarrow>
              (\<exists>manifest. get (members (the_context srv)) ''_zerorpc_inspect'' =
                  Fn (Introspector manifest))
              \<and> own_names (members (the_context srv)) = own_names (members context0))
         \<and> ((''_zerorpc_inspect'' \<notin> set (own_names (members context0)) \<and> \<not> extensible context0)
              \<or> (''_zerorpc_inspect'' \<in> set (own_names (members context0))
                  \<and> ''_zerorpc_inspect'' \<in> set (readonly context0)) \<longrightarrow>
              the_context srv = context0)"
proof -
  from Server_context [OF assms] obtain manifest
    where ctx: "the_context srv =
                  assign context0 ''_zerorpc_inspect'' (Fn (Introspector manifest))"
    by blast
  have others: "filter (\<lambda>p. fst p \<noteq> ''_zerorpc_inspect'') (members (the_context srv))
                  = filter (\<lambda>p. fst p \<noteq> ''_zerorpc_inspect'') (members context0)"
    by (simp add: ctx assign_def filter_put)
  have kept: "\<forall>n. n \<noteq> ''_zerorpc_inspect'' \<longrightarrow>
                  get (members (the_context srv)) n = get (members context0) n"
    by (simp add: ctx assign_def get_put_other)
  have flags: "extensible (the_context srv) = extensible context0
               \<and> readonly (the_context srv) = readonly context0"
    by (simp add: ctx assign_def)
  have created: "\<exists>m. members (the_context srv) =
                   members context0 @ [(''_zerorpc_inspect'', Fn (Introspector m))]"
    if "''_zerorpc_inspect'' \<notin> set (own_names (members context0))" and "extensible context0"
    using that by (simp add: ctx assign_def put_append)
  have replaced: "(\<exists>m. get (members (the_context srv)) ''_zerorpc_inspect'' = Fn (Introspector m))
                  \<and> own_names (members (the_context srv)) = own_names (members context0)"
    if "''_zerorpc_inspect'' \<in> set (own_names (members context0))"
      and "''_zerorpc_inspect'' \<notin> set (readonly context0)"
    using that by (simp add: ctx assign_def get_put_same own_names_put)
  have untouched: "the_context srv = context0"
    if "(''_zerorpc_inspect'' \<notin> set (own_names (members context0)) \<and> \<not> extensible context0)
        \<or> (''_zerorpc_inspect'' \<in> set (own_names (members context0))
            \<and> ''_zerorpc_inspect'' \<in> set (readonly context0))"
    using that by (auto simp: ctx assign_def)
  from others kept flags created replaced untouched show ?thesis by blast
qed

theorem C9_construction_changes_only_zerorpc_inspect_witness:
  "(Server (ordinary [(''add'', Fn (Declared ''function (a, b, cb) { cb(null, a + b); }''))]) None =
      Inr \<lparr>the_context =
             ordinary
               [(''add'', Fn (Declared ''function (a, b, cb) { cb(null, a + b); }'')),
                (''_zerorpc_inspect'',
                 Fn (Introspector (Obj [(''methods'',
                   Arr [Arr [Str ''add'',
                             Arr [Arr [Str ''self'', Str ''b'', Str ''cb''], Null, Null, Null],
                             Str []]])])))],
           methods = [(''add'', Bool True), (''_zerorpc_inspect'', Bool True)],
           heartbeat = 5000, listeners = []\<rparr>
    \<and> ''_zerorpc_inspect'' \<notin> set (own_names (members
          (ordinary [(''add'', Fn (Declared ''function (a, b, cb) { cb(null, a + b); }''))])))
    \<and> extensible (ordinary [(''add'', Fn (Declared ''function (a, b, cb) { cb(null, a + b); }''))]))
   \<and> (Server (frozen [(''add'', Fn (Declared ''function (a, b, cb) { cb(null, a + b); }''))]) None =
      Inr \<lparr>the_context =
             frozen [(''add'', Fn (Declared ''function (a, b, cb) { cb(null, a + b); }''))],
           methods = [(''add'', Bool True), (''_zerorpc_inspect'', Bool True)],
           heartbeat = 5000, listeners = []\<rparr>
    \<and> ''_zerorpc_inspect'' \<notin> set (own_names (members
          (frozen [(''add'', Fn (Declared ''function (a, b, cb) { cb(null, a + b); }''))])))
    \<and> \<not> extensible (frozen [(''add'', Fn (Declared ''function (a, b, cb) { cb(null, a + b); }''))]))
   \<and> filter (\<lambda>p. fst p \<noteq> ''_zerorpc_inspect'')
        [(''add'', Fn (Declared ''function (a, b, cb) { cb(null, a + b); }'')),
         (''_zerorpc_inspect'',
          Fn (Introspector (Obj [(''methods'',
            Arr [Arr [Str ''add'',
                      Arr [Arr [Str ''self'', Str ''b'', Str ''cb''], Null, Null, Null],
                      Str []]])])))]
       = [(''add'', Fn (Declared ''function (a, b, cb) { cb(null, a + b); }''))]"
  using C9_construction_changes_only_zerorpc_inspect
          [of "ordinary [(''add'', Fn (Declared ''function (a, b, cb) { cb(null, a + b); }''))]"
              None
              "\<lparr>the_context =
                  ordinary
                    [(''add'', Fn (Declared ''function (a, b, cb) { cb(null, a + b); }'')),
                     (''_zerorpc_inspect'',
                      Fn (Introspector (Obj [(''methods'',
                        Arr [Arr [Str ''add'',
                                  Arr [Arr [Str ''self'', Str ''b'', Str ''cb''], Null, Null, Null],
                                  Str []]])])))],
                methods = [(''add'', Bool True), (''_zerorpc_inspect'', Bool True)],
                heartbeat = 5000, listeners = []\<rparr>"]
        C9_construction_changes_only_zerorpc_inspect
          [of "frozen [(''add'', Fn (Declared ''function (a, b, cb) { cb(null, a + b); }''))]"
              None
              "\<lparr>the_context =
                  frozen [(''add'', Fn (Declared ''function (a, b, cb) { cb(null, a + b); }''))],
                methods = [(''add'', Bool True), (''_zerorpc_inspect'', Bool True)],
                heartbeat = 5000, listeners = []\<rparr>"]
  by (simp add: construction)

lemma inspect_lists_tail:
  assumes "get context0 n = Fn f" and "getArguments f = Inr names"
  shows "inspect context0 n =
           Inr (Arr [Str n, Arr [Arr (map Str (''self'' # tl names)), Null, Null, Null], Str []])"
  using assms by (simp add: inspect_def)

text \<open>
  Claim C1. For the method \<^verbatim>\<open>add: function (a, b, cb) { ... }\<close> the declared parameter
  names are \<^verbatim>\<open>a\<close>, \<^verbatim>\<open>b\<close>, \<^verbatim>\<open>cb\<close>, and the callback is the last of them, where
  \<^verbatim>\<open>_recv\<close> pushes it. The manifest entry that \<^verbatim>\<open>publicMethods\<close> builds lists
  \<^verbatim>\<open>self\<close>, \<^verbatim>\<open>b\<close>, \<^verbatim>\<open>cb\<close>: \<^verbatim>\<open>args.shift()\<close> removes the first name, not the
  trailing one.
\<close>

theorem C1_manifest_drops_first_parameter:
  "getArguments (Declared ''function (a, b, cb) { cb(null, a + b); }'') =
     Inr [''a'', ''b'', ''cb'']
   \<and> inspect [(''add'', Fn (Declared ''function (a, b, cb) { cb(null, a + b); }''))] ''add'' =
     Inr (Arr [Str ''add'',
               Arr [Arr [Str ''self'', Str ''b'', Str ''cb''], Null, Null, Null],
               Str []])
   \<and> map_sum id fst
       (publicMethods
          (ordinary [(''add'', Fn (Declared ''function (a, b, cb) { cb(null, a + b); }''))])) =
     Inr [(''add'', Bool True), (''_zerorpc_inspect'', Bool True)]"
  by (simp add: construction)

end
